theory Spec2Isabelle
  imports Complex_Main "HOL-Library.Word"
begin

section \<open>The audio store: data model\<close>

text \<open>
  The module \<^verbatim>\<open>src/stores/audioStore.ts\<close> keeps a singleton audio graph in module-level
  variables and talks to the browser's Web Audio runtime. The model splits the state in two:
  \<^item> \<open>store\<close>: the module-level variables of the file (lines 3 to 16);
  \<^item> \<open>world\<close>: everything that lives in the host (the \<^verbatim>\<open>window\<close> object, the audio
    contexts and nodes the runtime has created, the media elements, the console).
  Objects of the host are referred to by handles (natural numbers); a variable of the module
  that is \<^verbatim>\<open>null\<close> is \<open>None\<close>.
\<close>

type_synonym byte = "8 word"
type_synonym elem = nat

text \<open>
  A JavaScript number as far as this module produces one: a finite value, \<^verbatim>\<open>Infinity\<close>
  or \<^verbatim>\<open>NaN\<close> (the last two only out of a division by a zero length).
\<close>

datatype jsnum = Finite rat | PosInfinity | NaN

datatype ctx_status = Suspended | Running | Closed

datatype host_error = InvalidStateError

text \<open>
  The value of an element's \<^verbatim>\<open>onplay\<close> property: a handler of some other code, or the
  closure of lines 84 to 87, which captures the element it was installed for.
\<close>

datatype handler = ForeignHandler nat | StoreOnPlay elem

datatype endpoint = AnalyserNode nat | SplitterNode nat | SourceNode nat | Destination nat

text \<open>The console lines of the module, one constructor for each message of the source.\<close>

datatype console_entry =
    LogInitialized
  | LogConnected string
  | LogPlaying string
  | ErrorNotSupported
  | WarnConnectError host_error

record analyser_node =
  node_ctx :: nat
  fftSize :: nat
  smoothingTimeConstant :: rat

record media_element =
  el_id :: string
  crossOrigin :: "string option"
  onplay :: "handler option"
  source_attached :: bool

record world =
  has_window :: bool
  has_AudioContext :: bool
  has_webkitAudioContext :: bool
  ctx_count :: nat
  ctx_state :: "nat \<Rightarrow> ctx_status"
  resume_requests :: "nat list"
  analyser_count :: nat
  analysers :: "nat \<Rightarrow> analyser_node"
  freq_data :: "nat \<Rightarrow> byte list"
  splitter_count :: nat
  splitter_outputs :: "nat \<Rightarrow> nat"
  sources :: "elem list"
  connections :: "(endpoint \<times> endpoint \<times> nat) list"
  elements :: "elem \<Rightarrow> media_element"
  console :: "console_entry list"
  foreign_runs :: "nat list"

record store =
  isAudioContextReady :: bool
  audioContext :: "nat option"
  analyser :: "nat option"
  analyserL :: "nat option"
  analyserR :: "nat option"
  splitter :: "nat option"
  dataArray :: "byte list option"
  dataArrayL :: "byte list option"
  dataArrayR :: "byte list option"
  connectedElements :: "elem set"

text \<open>The module as it is loaded: lines 3 to 16.\<close>

definition init_store :: store where
  "init_store =
     \<lparr>isAudioContextReady = False, audioContext = None, analyser = None, analyserL = None,
      analyserR = None, splitter = None, dataArray = None, dataArrayL = None,
      dataArrayR = None, connectedElements = {}\<rparr>"

section \<open>The host runtime\<close>

text \<open>
  What the Web Audio runtime does when the module calls it. A new context gets the next
  handle; its state (\<^verbatim>\<open>suspended\<close> under an autoplay policy, \<^verbatim>\<open>running\<close> otherwise) is
  the host's choice, so it is read from \<open>ctx_state\<close> and never written by the module.
  The constructor and the node factories are taken to succeed; the one call of the host
  that throws is \<^verbatim>\<open>createMediaElementSource\<close>.
\<close>

definition new_AudioContext :: "world \<Rightarrow> nat \<times> world" where
  "new_AudioContext w = (ctx_count w, w\<lparr>ctx_count := Suc (ctx_count w)\<rparr>)"

text \<open>A fresh analyser has the runtime's defaults: window 2048, smoothing 0.8.\<close>

definition createAnalyser :: "nat \<Rightarrow> world \<Rightarrow> nat \<times> world" where
  "createAnalyser c w =
     (analyser_count w,
      w\<lparr>analyser_count := Suc (analyser_count w),
        analysers := (analysers w)(analyser_count w :=
          \<lparr>node_ctx = c, fftSize = 2048, smoothingTimeConstant = 8 / 10\<rparr>)\<rparr>)"

definition set_fftSize :: "nat \<Rightarrow> nat \<Rightarrow> world \<Rightarrow> world" where
  "set_fftSize a n w = w\<lparr>analysers := (analysers w)(a := (analysers w a)\<lparr>fftSize := n\<rparr>)\<rparr>"

definition set_smoothingTimeConstant :: "nat \<Rightarrow> rat \<Rightarrow> world \<Rightarrow> world" where
  "set_smoothingTimeConstant a x w =
     w\<lparr>analysers := (analysers w)(a := (analysers w a)\<lparr>smoothingTimeConstant := x\<rparr>)\<rparr>"

text \<open>The bin count of an analysis node is half its window size.\<close>

definition frequencyBinCount :: "world \<Rightarrow> nat \<Rightarrow> nat" where
  "frequencyBinCount w a = fftSize (analysers w a) div 2"

definition createChannelSplitter :: "nat \<Rightarrow> world \<Rightarrow> nat \<times> world" where
  "createChannelSplitter n w =
     (splitter_count w,
      w\<lparr>splitter_count := Suc (splitter_count w),
        splitter_outputs := (splitter_outputs w)(splitter_count w := n)\<rparr>)"

text \<open>
  \<^verbatim>\<open>src.connect(dst, output)\<close>. Every connection the module makes is between nodes of its
  own context and from an output port the node has, so the runtime accepts it.
\<close>

definition connect :: "endpoint \<Rightarrow> endpoint \<Rightarrow> nat \<Rightarrow> world \<Rightarrow> world" where
  "connect src dst out w = w\<lparr>connections := connections w @ [(src, dst, out)]\<rparr>"

text \<open>
  \<^verbatim>\<open>ctx.createMediaElementSource(element)\<close>: an element can feed one streaming source
  only; asking for a second one throws.
\<close>

definition createMediaElementSource :: "elem \<Rightarrow> world \<Rightarrow> host_error + nat \<times> world" where
  "createMediaElementSource e w =
     (if source_attached (elements w e) then Inl InvalidStateError
      else Inr (length (sources w),
                w\<lparr>sources := sources w @ [e],
                  elements := (elements w)(e := (elements w e)\<lparr>source_attached := True\<rparr>)\<rparr>))"

text \<open>
  \<^verbatim>\<open>node.getByteFrequencyData(buffer)\<close> copies the node's current magnitudes into the
  caller's buffer, in place: as many bins as fit, the rest of the buffer untouched.
\<close>

definition getByteFrequencyData :: "world \<Rightarrow> nat \<Rightarrow> byte list \<Rightarrow> byte list" where
  "getByteFrequencyData w a buf =
     take (length buf) (freq_data w a) @ drop (length (freq_data w a)) buf"

definition console_write :: "console_entry \<Rightarrow> world \<Rightarrow> world" where
  "console_write x w = w\<lparr>console := console w @ [x]\<rparr>"

definition set_crossOrigin :: "elem \<Rightarrow> string \<Rightarrow> world \<Rightarrow> world" where
  "set_crossOrigin e v w =
     w\<lparr>elements := (elements w)(e := (elements w e)\<lparr>crossOrigin := Some v\<rparr>)\<rparr>"

definition set_onplay :: "elem \<Rightarrow> handler \<Rightarrow> world \<Rightarrow> world" where
  "set_onplay e h w = w\<lparr>elements := (elements w)(e := (elements w e)\<lparr>onplay := Some h\<rparr>)\<rparr>"

text \<open>\<^verbatim>\<open>new Uint8Array(n)\<close>: \<open>n\<close> zero bytes.\<close>

definition new_Uint8Array :: "nat \<Rightarrow> byte list" where
  "new_Uint8Array n = replicate n 0"

section \<open>Numbers\<close>

text \<open>
  The sums of the module are sums of bytes: integers far below \<open>2 ^ 53\<close>, which a
  JavaScript number adds without rounding, so they are natural numbers here. The quotient
  \<^verbatim>\<open>sum / length\<close> is an IEEE binary64 division: the exact quotient rounded to 53
  significant bits, to nearest, ties to even. \<open>binary64_quotient\<close> is that rounding for
  operands \<open>0 < a < 2 ^ 53\<close> and \<open>0 < b\<close> (the scaled quotient \<open>q * 2 ^ s\<close> lies in
  \<open>[2 ^ 52, 2 ^ 53)\<close>).
\<close>

fun bit_length :: "nat \<Rightarrow> nat" where
  "bit_length n = (if n = 0 then 0 else Suc (bit_length (n div 2)))"

declare bit_length.simps [simp del]

definition round_half_even :: "rat \<Rightarrow> int" where
  "round_half_even x =
     (let f = \<lfloor>x\<rfloor>; d = x - of_int f
      in if d < 1 / 2 then f
         else if 1 / 2 < d then f + 1
         else if even f then f else f + 1)"

definition binary64_quotient :: "nat \<Rightarrow> nat \<Rightarrow> rat" where
  "binary64_quotient a b =
     (let q = of_nat a / of_nat b;
          s0 = 53 + bit_length b - bit_length a;
          s = (if 2 ^ 53 \<le> q * 2 ^ s0 then s0 - 1 else s0)
      in of_int (round_half_even (q * 2 ^ s)) / 2 ^ s)"

definition js_div :: "nat \<Rightarrow> nat \<Rightarrow> jsnum" where
  "js_div a b =
     (if b = 0 then (if a = 0 then NaN else PosInfinity)
      else if a = 0 then Finite 0
      else Finite (binary64_quotient a b))"

text \<open>The arithmetic mean of a snapshot, as a rational number: what the claims speak of.\<close>

definition mean :: "byte list \<Rightarrow> rat" where
  "mean xs = of_nat (sum_list (map unat xs)) / of_nat (length xs)"

section \<open>The module\<close>

text \<open>
  \<^verbatim>\<open>initAudioContext\<close>, lines 18 to 55. The result is the return value, the module's
  variables and the host after the call.
\<close>

definition build_graph :: "store \<Rightarrow> world \<Rightarrow> nat option \<times> store \<times> world" where
  "build_graph m w =
     (let (c, w1) = new_AudioContext w;
          (a, w2) = createAnalyser c w1;
          w3 = set_smoothingTimeConstant a (8 / 10) (set_fftSize a 512 w2);
          d = new_Uint8Array (frequencyBinCount w3 a);
          (aL, w4) = createAnalyser c w3;
          w5 = set_smoothingTimeConstant aL (8 / 10) (set_fftSize aL 512 w4);
          dL = new_Uint8Array (frequencyBinCount w5 aL);
          (aR, w6) = createAnalyser c w5;
          w7 = set_smoothingTimeConstant aR (8 / 10) (set_fftSize aR 512 w6);
          dR = new_Uint8Array (frequencyBinCount w7 aR);
          (s, w8) = createChannelSplitter 2 w7;
          w9 = connect (SplitterNode s) (AnalyserNode aL) 0 w8;
          w10 = connect (SplitterNode s) (AnalyserNode aR) 1 w9;
          m' = m\<lparr>isAudioContextReady := True, audioContext := Some c, analyser := Some a,
                 analyserL := Some aL, analyserR := Some aR, splitter := Some s,
                 dataArray := Some d, dataArrayL := Some dL, dataArrayR := Some dR\<rparr>
      in (Some c, m', console_write LogInitialized w10))"

definition initAudioContext :: "store \<Rightarrow> world \<Rightarrow> nat option \<times> store \<times> world" where
  "initAudioContext m w =
     (if \<not> has_window w then (None, m, w)
      else case audioContext m of
             Some c \<Rightarrow> (Some c, m, w)
           | None \<Rightarrow>
               if \<not> (has_AudioContext w \<or> has_webkitAudioContext w)
               then (None, m, console_write ErrorNotSupported w)
               else build_graph m w)"

text \<open>\<^verbatim>\<open>resumeAudioContext\<close>, lines 128 to 132: the request is recorded by the host.\<close>

definition resumeAudioContext :: "store \<Rightarrow> world \<Rightarrow> world" where
  "resumeAudioContext m w =
     (case audioContext m of
        None \<Rightarrow> w
      | Some c \<Rightarrow>
          if ctx_state w c = Suspended then w\<lparr>resume_requests := resume_requests w @ [c]\<rparr>
          else w)"

text \<open>
  Lines 66 to 68: \<^verbatim>\<open>!element.crossOrigin\<close> holds for \<^verbatim>\<open>null\<close> and for the empty
  string.
\<close>

definition ensure_crossOrigin :: "elem \<Rightarrow> world \<Rightarrow> world" where
  "ensure_crossOrigin e w =
     (if crossOrigin (elements w e) = None \<or> crossOrigin (elements w e) = Some []
      then set_crossOrigin e ''anonymous'' w else w)"

text \<open>
  The body of the \<^verbatim>\<open>try\<close> of \<^verbatim>\<open>connectAudioElement\<close>, lines 66 to 87. An exception
  does not undo what ran before it: the error carries the host as it was at the throw.
\<close>

definition wire_element ::
  "elem \<Rightarrow> nat \<Rightarrow> nat \<Rightarrow> nat \<Rightarrow> store \<Rightarrow> world \<Rightarrow> host_error \<times> world + store \<times> world" where
  "wire_element e c a s m w =
     (let w1 = ensure_crossOrigin e w
      in (case createMediaElementSource e w1 of
            Inl err \<Rightarrow> Inl (err, w1)
          | Inr (src, w2) \<Rightarrow>
              (let w3 = connect (SourceNode src) (AnalyserNode a) 0 w2;
                   w4 = connect (SourceNode src) (SplitterNode s) 0 w3;
                   w5 = connect (AnalyserNode a) (Destination c) 0 w4;
                   m' = m\<lparr>connectedElements := insert e (connectedElements m)\<rparr>;
                   w6 = console_write (LogConnected (el_id (elements w5 e))) w5
               in Inr (m', set_onplay e (StoreOnPlay e) w6))))"

text \<open>\<^verbatim>\<open>connectAudioElement\<close>, lines 57 to 92.\<close>

definition connectAudioElement :: "elem \<Rightarrow> store \<Rightarrow> world \<Rightarrow> store \<times> world" where
  "connectAudioElement e m w =
     (let (ctx, m1, w1) = initAudioContext m w
      in case ctx of
           None \<Rightarrow> (m1, w1)
         | Some c \<Rightarrow>
            (case analyser m1 of
               None \<Rightarrow> (m1, w1)
             | Some a \<Rightarrow>
                (case splitter m1 of
                   None \<Rightarrow> (m1, w1)
                 | Some s \<Rightarrow>
                     if e \<in> connectedElements m1 then (m1, w1)
                     else (case wire_element e c a s m1 w1 of
                             Inr (m2, w2) \<Rightarrow> (m2, w2)
                           | Inl (err, w2) \<Rightarrow>
                               (m1, console_write (WarnConnectError err) w2)))))"

text \<open>
  \<^verbatim>\<open>getAudioData\<close>, lines 94 to 98. The buffer is filled in place and returned, so the
  value returned is the new content of \<open>dataArray\<close>.
\<close>

definition getAudioData :: "store \<Rightarrow> world \<Rightarrow> byte list \<times> store" where
  "getAudioData m w =
     (case analyser m of
        None \<Rightarrow> (new_Uint8Array 0, m)
      | Some a \<Rightarrow>
         (case dataArray m of
            None \<Rightarrow> (new_Uint8Array 0, m)
          | Some d \<Rightarrow>
              let d' = getByteFrequencyData w a d
              in (d', m\<lparr>dataArray := Some d'\<rparr>)))"

text \<open>\<^verbatim>\<open>getStereoData\<close>, lines 100 to 115; \<^verbatim>\<open>reduce((a, b) => a + b, 0)\<close> is a left fold.\<close>

record stereo =
  left :: jsnum
  right :: jsnum

definition reduce_sum :: "byte list \<Rightarrow> nat" where
  "reduce_sum xs = foldl (\<lambda>a b. a + unat b) 0 xs"

definition getStereoData :: "store \<Rightarrow> world \<Rightarrow> stereo \<times> store" where
  "getStereoData m w =
     (case (analyserL m, analyserR m, dataArrayL m, dataArrayR m) of
        (Some aL, Some aR, Some dL, Some dR) \<Rightarrow>
          let dL' = getByteFrequencyData w aL dL;
              dR' = getByteFrequencyData w aR dR;
              sumL = reduce_sum dL';
              sumR = reduce_sum dR';
              avgL = js_div sumL (length dL');
              avgR = js_div sumR (length dR')
          in (\<lparr>left = avgL, right = avgR\<rparr>, m\<lparr>dataArrayL := Some dL', dataArrayR := Some dR'\<rparr>)
      | _ \<Rightarrow> (\<lparr>left = Finite 0, right = Finite 0\<rparr>, m))"

text \<open>\<^verbatim>\<open>getAverageVolume\<close>, lines 117 to 126, with its loop over the indices.\<close>

function sum_loop :: "byte list \<Rightarrow> nat \<Rightarrow> nat \<Rightarrow> nat" where
  "sum_loop data i sum_acc =
     (if i < length data then sum_loop data (i + 1) (sum_acc + unat (data ! i)) else sum_acc)"
  by pat_completeness auto
termination
  by (relation "measure (\<lambda>(data, i, sum_acc). length data - i)") auto

declare sum_loop.simps [simp del]

definition getAverageVolume :: "store \<Rightarrow> world \<Rightarrow> jsnum \<times> store" where
  "getAverageVolume m w =
     (let (data, m') = getAudioData m w
      in if length data = 0 then (Finite 0, m')
         else (js_div (sum_loop data 0 0) (length data), m'))"

text \<open>
  A \<^verbatim>\<open>play\<close> event on an element runs whatever its \<^verbatim>\<open>onplay\<close> property holds: nothing,
  a handler of other code (the host records that it ran), or the closure of lines 84 to 87.
\<close>

definition fire_play :: "elem \<Rightarrow> store \<Rightarrow> world \<Rightarrow> world" where
  "fire_play e m w =
     (case onplay (elements w e) of
        None \<Rightarrow> w
      | Some (ForeignHandler k) \<Rightarrow> w\<lparr>foreign_runs := foreign_runs w @ [k]\<rparr>
      | Some (StoreOnPlay e') \<Rightarrow>
          resumeAudioContext m (console_write (LogPlaying (el_id (elements w e'))) w))"

section \<open>The states the module can be in\<close>

text \<open>
  What the host and other code may do between two calls: anything, except that the
  \<^verbatim>\<open>window\<close> object and its constructors stay as they are, handles are never reused, and
  the analysis nodes that exist are not reconfigured (the module does not export its nodes).
\<close>

definition env_step :: "world \<Rightarrow> world \<Rightarrow> bool" where
  "env_step w w' \<longleftrightarrow>
     has_window w' = has_window w \<and>
     has_AudioContext w' = has_AudioContext w \<and>
     has_webkitAudioContext w' = has_webkitAudioContext w \<and>
     ctx_count w \<le> ctx_count w' \<and>
     analyser_count w \<le> analyser_count w' \<and>
     splitter_count w \<le> splitter_count w' \<and>
     (\<forall>a < analyser_count w. analysers w' a = analysers w a)"

text \<open>
  The module starts as loaded, in any host; every exported function, every \<^verbatim>\<open>play\<close>
  event and every step of the environment leads from a reachable state to a reachable one.
  The ready flag is an exported store, which other code can write as well.
\<close>

inductive reachable :: "store \<Rightarrow> world \<Rightarrow> bool" where
  r_start: "reachable init_store w"
| r_init: "reachable m w \<Longrightarrow> initAudioContext m w = (r, m', w') \<Longrightarrow> reachable m' w'"
| r_connect: "reachable m w \<Longrightarrow> connectAudioElement e m w = (m', w') \<Longrightarrow> reachable m' w'"
| r_audio: "reachable m w \<Longrightarrow> getAudioData m w = (d, m') \<Longrightarrow> reachable m' w"
| r_stereo: "reachable m w \<Longrightarrow> getStereoData m w = (sd, m') \<Longrightarrow> reachable m' w"
| r_volume: "reachable m w \<Longrightarrow> getAverageVolume m w = (v, m') \<Longrightarrow> reachable m' w"
| r_resume: "reachable m w \<Longrightarrow> reachable m (resumeAudioContext m w)"
| r_play: "reachable m w \<Longrightarrow> reachable m (fire_play e m w)"
| r_env: "reachable m w \<Longrightarrow> env_step w w' \<Longrightarrow> reachable m w'"
| r_ready: "reachable m w \<Longrightarrow> reachable (m\<lparr>isAudioContextReady := b\<rparr>) w"

text \<open>
  The two shapes of the module's variables: nothing built and nothing registered, or the
  graph as \<^verbatim>\<open>initAudioContext\<close> leaves it, and as it stays.
\<close>

definition unbuilt :: "store \<Rightarrow> bool" where
  "unbuilt m \<longleftrightarrow>
     audioContext m = None \<and> analyser m = None \<and> analyserL m = None \<and>
     analyserR m = None \<and> splitter m = None \<and> dataArray m = None \<and>
     dataArrayL m = None \<and> dataArrayR m = None \<and> connectedElements m = {}"

definition built :: "store \<Rightarrow> world \<Rightarrow> bool" where
  "built m w \<longleftrightarrow>
     has_window w \<and> (has_AudioContext w \<or> has_webkitAudioContext w) \<and>
     (\<exists>c a aL aR s d dL dR.
        audioContext m = Some c \<and> analyser m = Some a \<and> analyserL m = Some aL \<and>
        analyserR m = Some aR \<and> splitter m = Some s \<and>
        dataArray m = Some d \<and> dataArrayL m = Some dL \<and> dataArrayR m = Some dR \<and>
        length d = 256 \<and> length dL = 256 \<and> length dR = 256 \<and>
        c < ctx_count w \<and> s < splitter_count w \<and>
        a < analyser_count w \<and> aL < analyser_count w \<and> aR < analyser_count w \<and>
        frequencyBinCount w a = 256 \<and> frequencyBinCount w aL = 256 \<and>
        frequencyBinCount w aR = 256)"

text \<open>An analysis node as lines 30 to 32 configure it.\<close>

definition graph_node :: "nat \<Rightarrow> analyser_node" where
  "graph_node c = \<lparr>node_ctx = c, fftSize = 512, smoothingTimeConstant = 8 / 10\<rparr>"

definition graph_inv :: "store \<Rightarrow> world \<Rightarrow> bool" where
  "graph_inv m w \<longleftrightarrow> unbuilt m \<or> built m w"

text \<open>\<open>n\<close> calls of \<^verbatim>\<open>initAudioContext\<close> in a row: the state after the last one.\<close>

fun init_calls :: "nat \<Rightarrow> store \<times> world \<Rightarrow> store \<times> world" where
  "init_calls 0 s = s"
| "init_calls (Suc n) s = (case initAudioContext (fst s) (snd s) of (r, m', w') \<Rightarrow> init_calls n (m', w'))"

section \<open>Example states\<close>

text \<open>
  A browser with an audio runtime, nothing created yet, the contexts it creates suspended,
  every analysis node reading full scale, and media elements that carry a handler of their
  own and no cross-origin attribute.
\<close>

definition demo_element :: media_element where
  "demo_element =
     \<lparr>el_id = ''player'', crossOrigin = None, onplay = Some (ForeignHandler 7),
      source_attached = False\<rparr>"

definition demo_world :: world where
  "demo_world =
     \<lparr>has_window = True, has_AudioContext = True, has_webkitAudioContext = False,
      ctx_count = 0, ctx_state = (\<lambda>_. Suspended), resume_requests = [],
      analyser_count = 0,
      analysers = (\<lambda>_. \<lparr>node_ctx = 0, fftSize = 2048, smoothingTimeConstant = 8 / 10\<rparr>),
      freq_data = (\<lambda>_. replicate 256 255),
      splitter_count = 0, splitter_outputs = (\<lambda>_. 0),
      sources = [], connections = [], elements = (\<lambda>_. demo_element),
      console = [], foreign_runs = []\<rparr>"

text \<open>
  The same browser after the first \<^verbatim>\<open>initAudioContext\<close>, then after connecting element 0;
  and a browser whose elements already feed a streaming source of their own, before and
  after the first \<^verbatim>\<open>initAudioContext\<close>.
\<close>

definition demo_store1 :: store where
  "demo_store1 = fst (snd (initAudioContext init_store demo_world))"

definition demo_world1 :: world where
  "demo_world1 = snd (snd (initAudioContext init_store demo_world))"

definition demo_store2 :: store where
  "demo_store2 = fst (connectAudioElement 0 demo_store1 demo_world1)"

definition demo_world2 :: world where
  "demo_world2 = snd (connectAudioElement 0 demo_store1 demo_world1)"

definition attached_world0 :: world where
  "attached_world0 = demo_world\<lparr>elements := (\<lambda>_. demo_element\<lparr>source_attached := True\<rparr>)\<rparr>"

definition attached_world :: world where
  "attached_world = demo_world1\<lparr>elements := (\<lambda>_. demo_element\<lparr>source_attached := True\<rparr>)\<rparr>"

section \<open>Arithmetic of the averages\<close>

lemma round_half_even_of_int: "round_half_even (of_int k) = k"
  by (simp add: round_half_even_def)

lemma bit_length_le: "a < 2 ^ k \<Longrightarrow> bit_length a \<le> k"
proof (induction k arbitrary: a)
  case 0
  then show ?case by (simp add: bit_length.simps)
next
  case (Suc k)
  from Suc.prems have "a div 2 < 2 ^ k" by simp
  then have "bit_length (a div 2) \<le> k" by (rule Suc.IH)
  then show ?case by (subst bit_length.simps) simp
qed

lemma bit_length_pow2: "bit_length (2 ^ n) = Suc n"
proof (induction n)
  case 0
  show ?case by (simp add: bit_length.simps)
next
  case (Suc n)
  then show ?case by (subst bit_length.simps) simp
qed

lemma round_scaled:
  assumes "n \<le> s"
  shows "of_int (round_half_even (of_nat a / 2 ^ n * 2 ^ s)) / 2 ^ s = (of_nat a / 2 ^ n :: rat)"
proof -
  obtain k where s: "s = n + k" using assms by (auto simp: le_iff_add)
  have "(of_nat a / 2 ^ n * 2 ^ s :: rat) = of_int (int (a * 2 ^ k))"
    by (simp add: s power_add)
  then have "round_half_even (of_nat a / 2 ^ n * 2 ^ s) = int (a * 2 ^ k)"
    by (simp only: round_half_even_of_int)
  then show ?thesis by (simp add: s power_add)
qed

lemma binary64_quotient_pow2:
  assumes "a < 2 ^ 53"
  shows "binary64_quotient a (2 ^ n) = of_nat a / 2 ^ n"
proof -
  have "bit_length a \<le> 53" using assms by (rule bit_length_le)
  then have *: "n \<le> 53 + bit_length (2 ^ n) - bit_length a - 1" "n \<le> 53 + bit_length (2 ^ n) - bit_length a"
    by (simp_all add: bit_length_pow2)
  show ?thesis
    unfolding binary64_quotient_def Let_def
    using round_scaled[OF *(1), of a] round_scaled[OF *(2), of a]
    by (simp split: if_splits)
qed

lemma js_div_pow2: "a < 2 ^ 53 \<Longrightarrow> js_div a (2 ^ n) = Finite (of_nat a / 2 ^ n)"
  by (simp add: js_div_def binary64_quotient_pow2)

lemma js_div_256: "a < 2 ^ 53 \<Longrightarrow> js_div a 256 = Finite (of_nat a / 256)"
  using js_div_pow2[of a 8] by simp

lemma sum_bytes_le: "sum_list (map unat (xs :: byte list)) \<le> 255 * length xs"
proof (induction xs)
  case Nil
  show ?case by simp
next
  case (Cons x xs)
  have "unat x < 2 ^ 8" using unsigned_less[of x] by simp
  then show ?case using Cons by simp
qed

lemma sum_loop_eq: "sum_loop data i acc = acc + sum_list (map unat (drop i data))"
proof (induction data i acc rule: sum_loop.induct)
  case (1 data i acc)
  show ?case
  proof (cases "i < length data")
    case True
    then have "drop i data = data ! i # drop (Suc i) data"
      by (simp add: Cons_nth_drop_Suc)
    with True 1 show ?thesis by (subst sum_loop.simps) simp
  next
    case False
    then show ?thesis by (subst sum_loop.simps) simp
  qed
qed

lemma foldl_sum_bytes: "foldl (\<lambda>a b. a + unat b) acc xs = acc + sum_list (map unat xs)"
  by (induction xs arbitrary: acc) simp_all

lemma reduce_sum_eq: "reduce_sum xs = sum_list (map unat xs)"
  by (simp add: reduce_sum_def foldl_sum_bytes)

lemma js_div_mean_256:
  assumes "length xs = 256"
  shows "js_div (sum_list (map unat xs)) (length xs) = Finite (mean xs)"
proof -
  have "sum_list (map unat xs) \<le> 255 * 256" using sum_bytes_le[of xs] assms by simp
  then have "sum_list (map unat xs) < 2 ^ 53" by simp
  then show ?thesis using assms by (simp add: js_div_256 mean_def)
qed

lemma length_getByteFrequencyData [simp]: "length (getByteFrequencyData w a buf) = length buf"
  by (simp add: getByteFrequencyData_def)

section \<open>The calls, case by case\<close>

lemmas host_defs = new_AudioContext_def createAnalyser_def set_fftSize_def
  set_smoothingTimeConstant_def frequencyBinCount_def createChannelSplitter_def connect_def
  console_write_def new_Uint8Array_def

lemma build_graph_eq:
  "build_graph m w =
     (Some (ctx_count w),
      m\<lparr>isAudioContextReady := True, audioContext := Some (ctx_count w),
        analyser := Some (analyser_count w), analyserL := Some (analyser_count w + 1),
        analyserR := Some (analyser_count w + 2), splitter := Some (splitter_count w),
        dataArray := Some (replicate 256 0), dataArrayL := Some (replicate 256 0),
        dataArrayR := Some (replicate 256 0)\<rparr>,
      w\<lparr>ctx_count := ctx_count w + 1,
        analyser_count := analyser_count w + 3,
        analysers := (analysers w)
          (analyser_count w := graph_node (ctx_count w),
           analyser_count w + 1 := graph_node (ctx_count w),
           analyser_count w + 2 := graph_node (ctx_count w)),
        splitter_count := splitter_count w + 1,
        splitter_outputs := (splitter_outputs w)(splitter_count w := 2),
        connections := connections w @
          [(SplitterNode (splitter_count w), AnalyserNode (analyser_count w + 1), 0),
           (SplitterNode (splitter_count w), AnalyserNode (analyser_count w + 2), 1)],
        console := console w @ [LogInitialized]\<rparr>)"
  by (simp add: build_graph_def host_defs graph_node_def Let_def)


lemma init_no_window: "\<not> has_window w \<Longrightarrow> initAudioContext m w = (None, m, w)"
  by (simp add: initAudioContext_def)

lemma init_existing:
  "has_window w \<Longrightarrow> audioContext m = Some c \<Longrightarrow> initAudioContext m w = (Some c, m, w)"
  by (simp add: initAudioContext_def)

lemma init_unsupported:
  "has_window w \<Longrightarrow> audioContext m = None \<Longrightarrow>
   \<not> has_AudioContext w \<Longrightarrow> \<not> has_webkitAudioContext w \<Longrightarrow>
   initAudioContext m w = (None, m, console_write ErrorNotSupported w)"
  by (simp add: initAudioContext_def)

lemma init_first:
  "has_window w \<Longrightarrow> audioContext m = None \<Longrightarrow>
   has_AudioContext w \<or> has_webkitAudioContext w \<Longrightarrow>
   initAudioContext m w = build_graph m w"
  by (auto simp add: initAudioContext_def)

lemma env_step_refl: "env_step w w"
  by (simp add: env_step_def)

lemma env_step_trans: "env_step w w' \<Longrightarrow> env_step w' w'' \<Longrightarrow> env_step w w''"
  unfolding env_step_def by (intro conjI allI impI; simp)

lemma env_step_console_write: "env_step w (console_write x w)"
  by (simp add: env_step_def console_write_def)

lemma env_step_connect: "env_step w (connect s d p w)"
  by (simp add: env_step_def connect_def)

lemma env_step_set_crossOrigin: "env_step w (set_crossOrigin e v w)"
  by (simp add: env_step_def set_crossOrigin_def)

lemma env_step_set_onplay: "env_step w (set_onplay e h w)"
  by (simp add: env_step_def set_onplay_def)

lemma env_step_resume: "env_step w (resumeAudioContext m w)"
  by (simp add: env_step_def resumeAudioContext_def split: option.splits)

lemma env_step_fire_play: "env_step w (fire_play e m w)"
  by (simp add: env_step_def fire_play_def resumeAudioContext_def console_write_def
      split: option.splits handler.splits)

lemma env_step_source:
  "createMediaElementSource e w = Inr (src, w') \<Longrightarrow> env_step w w'"
  by (auto simp add: env_step_def createMediaElementSource_def split: if_splits)

lemma built_env_step:
  assumes "built m w" "env_step w w'"
  shows "built m w'"
proof -
  from assms(1) obtain c a aL aR s d dL dR where
    flags: "has_window w" "has_AudioContext w \<or> has_webkitAudioContext w"
    and vars: "audioContext m = Some c" "analyser m = Some a" "analyserL m = Some aL"
      "analyserR m = Some aR" "splitter m = Some s"
      "dataArray m = Some d" "dataArrayL m = Some dL" "dataArrayR m = Some dR"
    and lens: "length d = 256" "length dL = 256" "length dR = 256"
    and ids: "c < ctx_count w" "s < splitter_count w"
      "a < analyser_count w" "aL < analyser_count w" "aR < analyser_count w"
    and bins: "frequencyBinCount w a = 256" "frequencyBinCount w aL = 256"
      "frequencyBinCount w aR = 256"
    unfolding built_def by blast
  from assms(2) have
    same: "has_window w' = has_window w" "has_AudioContext w' = has_AudioContext w"
      "has_webkitAudioContext w' = has_webkitAudioContext w"
    and mono: "ctx_count w \<le> ctx_count w'" "analyser_count w \<le> analyser_count w'"
      "splitter_count w \<le> splitter_count w'"
    and keep: "\<And>x. x < analyser_count w \<Longrightarrow> analysers w' x = analysers w x"
    unfolding env_step_def by simp_all
  have bins': "frequencyBinCount w' a = 256" "frequencyBinCount w' aL = 256"
    "frequencyBinCount w' aR = 256"
    using bins keep ids by (simp_all add: frequencyBinCount_def)
  have ids': "c < ctx_count w'" "s < splitter_count w'"
    "a < analyser_count w'" "aL < analyser_count w'" "aR < analyser_count w'"
    using ids mono by simp_all
  show ?thesis
    unfolding built_def using flags same vars lens ids' bins' by simp
qed

lemma graph_inv_env_step: "graph_inv m w \<Longrightarrow> env_step w w' \<Longrightarrow> graph_inv m w'"
  unfolding graph_inv_def using built_env_step by blast

lemma built_build_graph:
  assumes "has_window w" "has_AudioContext w \<or> has_webkitAudioContext w"
    and "build_graph m w = (r, m', w')"
  shows "built m' w'"
proof -
  from assms(3) have m': "m' = fst (snd (build_graph m w))" and w': "w' = snd (snd (build_graph m w))"
    by simp_all
  show ?thesis
    unfolding built_def m' w' build_graph_eq using assms(1,2)
    by (simp add: frequencyBinCount_def graph_node_def)
qed

lemma graph_inv_init:
  assumes "graph_inv m w" "initAudioContext m w = (r, m', w')"
  shows "graph_inv m' w'"
proof (cases "has_window w")
  case False
  with assms show ?thesis by (simp add: init_no_window)
next
  case True
  show ?thesis
  proof (cases "audioContext m")
    case (Some c)
    with True assms show ?thesis by (simp add: init_existing)
  next
    case None
    show ?thesis
    proof (cases "has_AudioContext w \<or> has_webkitAudioContext w")
      case ctor: True
      with True None assms(2) have "build_graph m w = (r, m', w')" by (simp add: init_first)
      with True ctor have "built m' w'" by (rule built_build_graph)
      then show ?thesis by (simp add: graph_inv_def)
    next
      case False
      with True None assms(2) have "m' = m" "w' = console_write ErrorNotSupported w"
        by (simp_all add: init_unsupported)
      with assms(1) show ?thesis
        by (simp add: graph_inv_env_step env_step_console_write)
    qed
  qed
qed


lemma env_step_ensure_crossOrigin: "env_step w (ensure_crossOrigin e w)"
  by (simp add: ensure_crossOrigin_def env_step_set_crossOrigin env_step_refl)

lemma wire_element_fail:
  "source_attached (elements w e) \<Longrightarrow>
   wire_element e c a s m w = Inl (InvalidStateError, ensure_crossOrigin e w)"
  by (simp add: wire_element_def createMediaElementSource_def ensure_crossOrigin_def
      set_crossOrigin_def)

lemma wire_element_ok:
  "\<not> source_attached (elements w e) \<Longrightarrow>
   wire_element e c a s m w =
     Inr (m\<lparr>connectedElements := insert e (connectedElements m)\<rparr>,
          (ensure_crossOrigin e w)
           \<lparr>sources := sources w @ [e],
            connections := connections w @
              [(SourceNode (length (sources w)), AnalyserNode a, 0),
               (SourceNode (length (sources w)), SplitterNode s, 0),
               (AnalyserNode a, Destination c, 0)],
            console := console w @ [LogConnected (el_id (elements w e))],
            elements := (elements (ensure_crossOrigin e w))
              (e := (elements (ensure_crossOrigin e w) e)
                 \<lparr>source_attached := True, onplay := Some (StoreOnPlay e)\<rparr>)\<rparr>)"
  by (simp add: wire_element_def createMediaElementSource_def ensure_crossOrigin_def
      set_crossOrigin_def connect_def console_write_def set_onplay_def Let_def)

lemma connect_no_ctx:
  "initAudioContext m w = (None, m1, w1) \<Longrightarrow> connectAudioElement e m w = (m1, w1)"
  by (simp add: connectAudioElement_def)

lemma connect_registered:
  "initAudioContext m w = (r, m1, w1) \<Longrightarrow> e \<in> connectedElements m1 \<Longrightarrow>
   connectAudioElement e m w = (m1, w1)"
  by (simp add: connectAudioElement_def split: option.splits)

lemma connect_missing_node:
  "initAudioContext m w = (r, m1, w1) \<Longrightarrow> analyser m1 = None \<or> splitter m1 = None \<Longrightarrow>
   connectAudioElement e m w = (m1, w1)"
  by (auto simp add: connectAudioElement_def split: option.splits)

lemma connect_fail:
  "initAudioContext m w = (Some c, m1, w1) \<Longrightarrow> analyser m1 = Some a \<Longrightarrow>
   splitter m1 = Some s \<Longrightarrow> e \<notin> connectedElements m1 \<Longrightarrow>
   source_attached (elements w1 e) \<Longrightarrow>
   connectAudioElement e m w =
     (m1, console_write (WarnConnectError InvalidStateError) (ensure_crossOrigin e w1))"
  by (simp add: connectAudioElement_def wire_element_fail)

lemma connect_ok:
  "initAudioContext m w = (Some c, m1, w1) \<Longrightarrow> analyser m1 = Some a \<Longrightarrow>
   splitter m1 = Some s \<Longrightarrow> e \<notin> connectedElements m1 \<Longrightarrow>
   \<not> source_attached (elements w1 e) \<Longrightarrow>
   connectAudioElement e m w =
     (m1\<lparr>connectedElements := insert e (connectedElements m1)\<rparr>,
      (ensure_crossOrigin e w1)
       \<lparr>sources := sources w1 @ [e],
        connections := connections w1 @
          [(SourceNode (length (sources w1)), AnalyserNode a, 0),
           (SourceNode (length (sources w1)), SplitterNode s, 0),
           (AnalyserNode a, Destination c, 0)],
        console := console w1 @ [LogConnected (el_id (elements w1 e))],
        elements := (elements (ensure_crossOrigin e w1))
          (e := (elements (ensure_crossOrigin e w1) e)
             \<lparr>source_attached := True, onplay := Some (StoreOnPlay e)\<rparr>)\<rparr>)"
  by (simp add: connectAudioElement_def wire_element_ok)

text \<open>Whatever the call does, it does one of four things.\<close>

lemma connect_cases:
  assumes "initAudioContext m w = (r, m1, w1)" "connectAudioElement e m w = (m', w')"
  shows "(m' = m1 \<or> (analyser m1 \<noteq> None \<and> m' = m1\<lparr>connectedElements := insert e (connectedElements m1)\<rparr>))
         \<and> env_step w1 w'"
proof (cases "r = None \<or> analyser m1 = None \<or> splitter m1 = None \<or> e \<in> connectedElements m1")
  case True
  then have "connectAudioElement e m w = (m1, w1)"
    using assms(1) connect_no_ctx connect_registered connect_missing_node by blast
  with assms(2) show ?thesis by (simp add: env_step_refl)
next
  case False
  then obtain c a s where ok: "r = Some c" "analyser m1 = Some a" "splitter m1 = Some s"
    "e \<notin> connectedElements m1" by auto
  show ?thesis
  proof (cases "source_attached (elements w1 e)")
    case True
    from connect_fail[OF assms(1)[unfolded ok(1)] ok(2,3,4) True] assms(2)
    have "m' = m1" "w' = console_write (WarnConnectError InvalidStateError) (ensure_crossOrigin e w1)"
      by simp_all
    then show ?thesis
      using env_step_trans[OF env_step_ensure_crossOrigin env_step_console_write] by simp
  next
    case False
    from connect_ok[OF assms(1)[unfolded ok(1)] ok(2,3,4) False] assms(2)
    have m': "m' = m1\<lparr>connectedElements := insert e (connectedElements m1)\<rparr>"
      and w': "w' = (ensure_crossOrigin e w1)
       \<lparr>sources := sources w1 @ [e],
        connections := connections w1 @
          [(SourceNode (length (sources w1)), AnalyserNode a, 0),
           (SourceNode (length (sources w1)), SplitterNode s, 0),
           (AnalyserNode a, Destination c, 0)],
        console := console w1 @ [LogConnected (el_id (elements w1 e))],
        elements := (elements (ensure_crossOrigin e w1))
          (e := (elements (ensure_crossOrigin e w1) e)
             \<lparr>source_attached := True, onplay := Some (StoreOnPlay e)\<rparr>)\<rparr>"
      by simp_all
    have "env_step (ensure_crossOrigin e w1) w'"
      unfolding w' by (simp add: env_step_def)
    then have "env_step w1 w'"
      using env_step_trans[OF env_step_ensure_crossOrigin] by blast
    with m' ok(2) show ?thesis by simp
  qed
qed

lemma built_registry:
  "built m w \<Longrightarrow> built (m\<lparr>connectedElements := X\<rparr>) w"
  by (simp add: built_def)

lemma graph_inv_connect:
  assumes "graph_inv m w" "connectAudioElement e m w = (m', w')"
  shows "graph_inv m' w'"
proof -
  obtain r m1 w1 where i: "initAudioContext m w = (r, m1, w1)" by (metis prod_cases3)
  from assms(1) i have inv1: "graph_inv m1 w1" by (rule graph_inv_init)
  from connect_cases[OF i assms(2)] have
    m': "m' = m1 \<or> (analyser m1 \<noteq> None \<and> m' = m1\<lparr>connectedElements := insert e (connectedElements m1)\<rparr>)"
    and env: "env_step w1 w'" by simp_all
  from m' show ?thesis
  proof
    assume "m' = m1"
    with inv1 env show ?thesis by (simp add: graph_inv_env_step)
  next
    assume a: "analyser m1 \<noteq> None \<and> m' = m1\<lparr>connectedElements := insert e (connectedElements m1)\<rparr>"
    then have "\<not> unbuilt m1" by (auto simp add: unbuilt_def)
    with inv1 have "built m1 w1" by (simp add: graph_inv_def)
    then have "built m' w1" using a by (simp add: built_registry)
    then have "built m' w'" using env by (rule built_env_step)
    then show ?thesis by (simp add: graph_inv_def)
  qed
qed

lemma graph_inv_audio:
  assumes "graph_inv m w" "getAudioData m w = (d, m')"
  shows "graph_inv m' w"
proof (cases "unbuilt m")
  case True
  with assms(2) show ?thesis
    by (auto simp add: getAudioData_def unbuilt_def graph_inv_def)
next
  case False
  with assms(1) have b: "built m w" by (simp add: graph_inv_def)
  then obtain a buf where ab: "analyser m = Some a" "dataArray m = Some buf" "length buf = 256"
    unfolding built_def by blast
  with assms(2) have "m' = m\<lparr>dataArray := Some (getByteFrequencyData w a buf)\<rparr>"
    by (auto simp add: getAudioData_def Let_def)
  with b ab have "built m' w" by (simp add: built_def)
  then show ?thesis by (simp add: graph_inv_def)
qed

lemma graph_inv_stereo:
  assumes "graph_inv m w" "getStereoData m w = (sd, m')"
  shows "graph_inv m' w"
proof (cases "unbuilt m")
  case True
  with assms(2) show ?thesis
    by (auto simp add: getStereoData_def unbuilt_def graph_inv_def)
next
  case False
  with assms(1) have b: "built m w" by (simp add: graph_inv_def)
  then obtain aL aR dL dR where ab: "analyserL m = Some aL" "analyserR m = Some aR"
    "dataArrayL m = Some dL" "dataArrayR m = Some dR" "length dL = 256" "length dR = 256"
    unfolding built_def by blast
  with assms(2) have "m' = m\<lparr>dataArrayL := Some (getByteFrequencyData w aL dL),
      dataArrayR := Some (getByteFrequencyData w aR dR)\<rparr>"
    by (auto simp add: getStereoData_def Let_def)
  with b ab have "built m' w" by (simp add: built_def)
  then show ?thesis by (simp add: graph_inv_def)
qed

lemma graph_inv_volume:
  assumes "graph_inv m w" "getAverageVolume m w = (v, m')"
  shows "graph_inv m' w"
proof -
  from assms(2) have "getAudioData m w = (fst (getAudioData m w), m')"
    by (auto simp add: getAverageVolume_def split: prod.splits if_splits)
  with assms(1) show ?thesis by (rule graph_inv_audio)
qed

lemma graph_inv_ready:
  "graph_inv m w \<Longrightarrow> graph_inv (m\<lparr>isAudioContextReady := b\<rparr>) w"
  by (simp add: graph_inv_def unbuilt_def built_def)

lemma reachable_graph_inv: "reachable m w \<Longrightarrow> graph_inv m w"
proof (induction rule: reachable.induct)
  case (r_start w)
  show ?case by (simp add: graph_inv_def unbuilt_def init_store_def)
next
  case (r_init m w r m' w')
  then show ?case using graph_inv_init by blast
next
  case (r_connect m w e m' w')
  then show ?case using graph_inv_connect by blast
next
  case (r_audio m w d m')
  then show ?case using graph_inv_audio by blast
next
  case (r_stereo m w sd m')
  then show ?case using graph_inv_stereo by blast
next
  case (r_volume m w v m')
  then show ?case using graph_inv_volume by blast
next
  case (r_resume m w)
  then show ?case using graph_inv_env_step env_step_resume by blast
next
  case (r_play m w e)
  then show ?case using graph_inv_env_step env_step_fire_play by blast
next
  case (r_env m w w')
  then show ?case using graph_inv_env_step by blast
next
  case (r_ready m w b)
  then show ?case using graph_inv_ready by blast
qed

section \<open>Facts about reachable states\<close>

lemma reachable_cases:
  assumes "reachable m w"
  shows "unbuilt m \<or> built m w"
  using reachable_graph_inv[OF assms] by (simp add: graph_inv_def)

lemma built_audioContext: "built m w \<Longrightarrow> audioContext m \<noteq> None"
  unfolding built_def by auto

lemma reachable_uninit:
  assumes "reachable m w" "audioContext m = None"
  shows "unbuilt m"
  using reachable_cases[OF assms(1)] built_audioContext assms(2) by blast

lemma reachable_init_built:
  assumes "reachable m w" "audioContext m \<noteq> None"
  shows "built m w"
  using reachable_cases[OF assms(1)] assms(2) by (auto simp add: unbuilt_def)

lemma getAudioData_unbuilt: "unbuilt m \<Longrightarrow> getAudioData m w = ([], m)"
  by (simp add: getAudioData_def unbuilt_def new_Uint8Array_def)

lemma getAudioData_init_store: "getAudioData init_store w = ([], init_store)"
  by (simp add: getAudioData_def init_store_def new_Uint8Array_def)

lemma init_registry:
  "initAudioContext m w = (r, m1, w1) \<Longrightarrow> connectedElements m1 = connectedElements m"
  by (auto simp add: initAudioContext_def build_graph_eq split: if_splits option.splits)

lemma init_elements:
  "initAudioContext m w = (r, m1, w1) \<Longrightarrow> elements w1 = elements w"
  by (auto simp add: initAudioContext_def build_graph_eq console_write_def
      split: if_splits option.splits)

lemma init_built:
  assumes "built m w"
  shows "\<exists>c. audioContext m = Some c \<and> initAudioContext m w = (Some c, m, w)"
proof -
  from assms obtain c where "audioContext m = Some c" "has_window w"
    unfolding built_def by blast
  then show ?thesis by (simp add: init_existing)
qed

lemma init_flag_write:
  assumes "initAudioContext m w = (r, m', w')" "isAudioContextReady m' \<noteq> isAudioContextReady m"
  shows "audioContext m = None" "audioContext m' = r" "r \<noteq> None" "isAudioContextReady m'"
proof -
  have changed: "m' \<noteq> m" using assms(2) by auto
  have hw: "has_window w"
  proof (rule ccontr)
    assume "\<not> has_window w"
    then have "initAudioContext m w = (None, m, w)" by (rule init_no_window)
    with assms(1) changed show False by simp
  qed
  show none: "audioContext m = None"
  proof (cases "audioContext m")
    case (Some c)
    with hw have "initAudioContext m w = (Some c, m, w)" by (simp add: init_existing)
    with assms(1) changed show ?thesis by simp
  qed simp
  have ct: "has_AudioContext w \<or> has_webkitAudioContext w"
  proof (rule ccontr)
    assume "\<not> (has_AudioContext w \<or> has_webkitAudioContext w)"
    with hw none have "initAudioContext m w = (None, m, console_write ErrorNotSupported w)"
      by (simp add: init_unsupported)
    with assms(1) changed show False by simp
  qed
  with hw none assms(1) have bg: "build_graph m w = (r, m', w')" by (simp add: init_first)
  then have "r = fst (build_graph m w)" "m' = fst (snd (build_graph m w))" by simp_all
  then show "audioContext m' = r" "r \<noteq> None" "isAudioContextReady m'"
    by (simp_all add: build_graph_eq)
qed

lemma init_calls_fixed:
  assumes "initAudioContext m w = (r, m, w)"
  shows "init_calls n (m, w) = (m, w)"
  using assms by (induction n) simp_all

lemma first_init:
  assumes "has_window w" "has_AudioContext w \<or> has_webkitAudioContext w"
    and "initAudioContext init_store w = (r, m1, w1)"
  shows "r = Some (ctx_count w)" "audioContext m1 = r"
    "ctx_count w1 = ctx_count w + 1" "splitter_count w1 = splitter_count w + 1"
    "analyser_count w1 = analyser_count w + 3"
    "analyser m1 = Some (analyser_count w)" "analyserL m1 = Some (analyser_count w + 1)"
    "analyserR m1 = Some (analyser_count w + 2)" "splitter m1 = Some (splitter_count w)"
    "isAudioContextReady m1" "has_window w1"
proof -
  have "audioContext init_store = None" by (simp add: init_store_def)
  then have "initAudioContext init_store w = build_graph init_store w"
    using assms(1,2) init_first by blast
  with assms(3) have bg: "build_graph init_store w = (r, m1, w1)" by simp
  then have m1: "m1 = fst (snd (build_graph init_store w))"
    and w1: "w1 = snd (snd (build_graph init_store w))"
    and "r = fst (build_graph init_store w)"
    by simp_all
  then show r: "r = Some (ctx_count w)" by (simp add: build_graph_eq)
  show "audioContext m1 = r" "ctx_count w1 = ctx_count w + 1"
    "splitter_count w1 = splitter_count w + 1" "analyser_count w1 = analyser_count w + 3"
    "analyser m1 = Some (analyser_count w)" "analyserL m1 = Some (analyser_count w + 1)"
    "analyserR m1 = Some (analyser_count w + 2)" "splitter m1 = Some (splitter_count w)"
    "isAudioContextReady m1" "has_window w1"
    using assms(1) unfolding r m1 w1 build_graph_eq by simp_all
qed

lemma mean_all_zero: "\<forall>b\<in>set xs. b = 0 \<Longrightarrow> mean xs = 0"
proof -
  assume "\<forall>b\<in>set xs. b = 0"
  then have "sum_list (map unat xs) = 0" by (induction xs) simp_all
  then show ?thesis by (simp add: mean_def)
qed

lemma mean_all_full: "xs \<noteq> [] \<Longrightarrow> \<forall>b\<in>set xs. b = 255 \<Longrightarrow> mean xs = 255"
proof -
  assume ne: "xs \<noteq> []" and all: "\<forall>b\<in>set xs. b = 255"
  from all have "sum_list (map unat xs) = 255 * length xs" by (induction xs) simp_all
  then show ?thesis using ne by (simp add: mean_def)
qed

lemma getAverageVolume_eq:
  assumes "getAudioData m w = (snap, m1)"
  shows "getAverageVolume m w =
           (if length snap = 0 then Finite 0
            else js_div (sum_list (map unat snap)) (length snap), m1)"
  using assms by (simp add: getAverageVolume_def sum_loop_eq)

lemma reachable_snapshot:
  assumes "reachable m w" "getAudioData m w = (snap, m1)"
  shows "snap = [] \<or> length snap = 256"
proof (cases "audioContext m")
  case None
  with assms(1) have "getAudioData m w = ([], m)"
    using reachable_uninit getAudioData_unbuilt by blast
  with assms(2) show ?thesis by simp
next
  case (Some c)
  with assms(1) have "built m w" by (simp add: reachable_init_built)
  then obtain a d where "analyser m = Some a" "dataArray m = Some d" "length d = 256"
    unfolding built_def by blast
  with assms(2) show ?thesis by (auto simp add: getAudioData_def Let_def)
qed

section \<open>The example states, evaluated\<close>

lemma demo_init_eq:
  "initAudioContext init_store demo_world =
     (Some 0,
      init_store\<lparr>isAudioContextReady := True, audioContext := Some 0,
        analyser := Some 0, analyserL := Some 1, analyserR := Some 2, splitter := Some 0,
        dataArray := Some (replicate 256 0), dataArrayL := Some (replicate 256 0),
        dataArrayR := Some (replicate 256 0)\<rparr>,
      demo_world\<lparr>ctx_count := 1, analyser_count := 3,
        analysers := (analysers demo_world)
          (0 := graph_node 0, 1 := graph_node 0, 2 := graph_node 0),
        splitter_count := 1,
        splitter_outputs := (splitter_outputs demo_world)(0 := 2),
        connections := [(SplitterNode 0, AnalyserNode 1, 0), (SplitterNode 0, AnalyserNode 2, 1)],
        console := [LogInitialized]\<rparr>)"
proof -
  have "initAudioContext init_store demo_world = build_graph init_store demo_world"
    by (rule init_first) (simp_all add: demo_world_def init_store_def)
  then show ?thesis
    unfolding build_graph_eq by (simp add: demo_world_def numeral_2_eq_2)
qed

lemma demo_store1_eq:
  "demo_store1 =
     \<lparr>isAudioContextReady = True, audioContext = Some 0, analyser = Some 0,
      analyserL = Some 1, analyserR = Some 2, splitter = Some 0,
      dataArray = Some (replicate 256 0), dataArrayL = Some (replicate 256 0),
      dataArrayR = Some (replicate 256 0), connectedElements = {}\<rparr>"
  unfolding demo_store1_def demo_init_eq by (simp add: init_store_def)

lemma demo_world1_eq:
  "demo_world1 =
     demo_world\<lparr>ctx_count := 1, analyser_count := 3,
        analysers := (analysers demo_world)
          (0 := graph_node 0, 1 := graph_node 0, 2 := graph_node 0),
        splitter_count := 1,
        splitter_outputs := (splitter_outputs demo_world)(0 := 2),
        connections := [(SplitterNode 0, AnalyserNode 1, 0), (SplitterNode 0, AnalyserNode 2, 1)],
        console := [LogInitialized]\<rparr>"
  unfolding demo_world1_def demo_init_eq by simp

lemma demo_init: "initAudioContext init_store demo_world = (Some 0, demo_store1, demo_world1)"
  unfolding demo_store1_def demo_world1_def by (simp add: demo_init_eq)

lemma demo_reachable1: "reachable demo_store1 demo_world1"
  using reachable.r_init[OF reachable.r_start demo_init] .

lemma demo_init_again:
  "initAudioContext demo_store1 demo_world1 = (Some 0, demo_store1, demo_world1)"
  by (rule init_existing) (simp_all add: demo_store1_eq demo_world1_eq demo_world_def)

lemma demo_connect: "connectAudioElement 0 demo_store1 demo_world1 = (demo_store2, demo_world2)"
  by (simp add: demo_store2_def demo_world2_def)

lemma demo_reachable2: "reachable demo_store2 demo_world2"
  using reachable.r_connect[OF demo_reachable1 demo_connect] .

lemma demo_connect_eq:
  "connectAudioElement 0 demo_store1 demo_world1 =
     (demo_store1\<lparr>connectedElements := {0}\<rparr>,
      demo_world1
       \<lparr>sources := [0],
        connections :=
          [(SplitterNode 0, AnalyserNode 1, 0), (SplitterNode 0, AnalyserNode 2, 1),
           (SourceNode 0, AnalyserNode 0, 0), (SourceNode 0, SplitterNode 0, 0),
           (AnalyserNode 0, Destination 0, 0)],
        console := [LogInitialized, LogConnected ''player''],
        elements := (elements demo_world1)
          (0 := \<lparr>el_id = ''player'', crossOrigin = Some ''anonymous'',
                 onplay = Some (StoreOnPlay 0), source_attached = True\<rparr>)\<rparr>)"
proof -
  have *: "connectAudioElement 0 demo_store1 demo_world1 = 
     (demo_store1\<lparr>connectedElements := insert 0 (connectedElements demo_store1)\<rparr>,
      (ensure_crossOrigin 0 demo_world1)
       \<lparr>sources := sources demo_world1 @ [0],
        connections := connections demo_world1 @
          [(SourceNode (length (sources demo_world1)), AnalyserNode 0, 0),
           (SourceNode (length (sources demo_world1)), SplitterNode 0, 0),
           (AnalyserNode 0, Destination 0, 0)],
        console := console demo_world1 @ [LogConnected (el_id (elements demo_world1 0))],
        elements := (elements (ensure_crossOrigin 0 demo_world1))
          (0 := (elements (ensure_crossOrigin 0 demo_world1) 0)
             \<lparr>source_attached := True, onplay := Some (StoreOnPlay 0)\<rparr>)\<rparr>)"
    by (rule connect_ok[OF demo_init_again])
       (simp_all add: demo_store1_eq demo_world1_eq demo_world_def demo_element_def)
  show ?thesis
    unfolding *
    by (simp add: demo_store1_eq demo_world1_eq demo_world_def demo_element_def
        ensure_crossOrigin_def set_crossOrigin_def)
qed

lemma demo_snapshot:
  "getAudioData demo_store1 demo_world1 =
     (replicate 256 255, demo_store1\<lparr>dataArray := Some (replicate 256 255)\<rparr>)"
  by (simp add: getAudioData_def getByteFrequencyData_def demo_store1_eq demo_world1_eq
      demo_world_def Let_def)

lemma demo_reachable_silent:
  "reachable demo_store1 (demo_world1\<lparr>freq_data := (\<lambda>_. replicate 256 0)\<rparr>)"
  by (rule reachable.r_env[OF demo_reachable1]) (simp add: env_step_def)

lemma demo_snapshot_silent:
  "getAudioData demo_store1 (demo_world1\<lparr>freq_data := (\<lambda>_. replicate 256 0)\<rparr>) =
     (replicate 256 0, demo_store1\<lparr>dataArray := Some (replicate 256 0)\<rparr>)"
  by (simp add: getAudioData_def getByteFrequencyData_def demo_store1_eq demo_world1_eq
      demo_world_def Let_def)

lemma attached_reachable: "reachable demo_store1 attached_world"
  by (rule reachable.r_env[OF demo_reachable1]) (simp add: env_step_def attached_world_def)

lemma attached_init:
  "initAudioContext demo_store1 attached_world = (Some 0, demo_store1, attached_world)"
  by (rule init_existing)
     (simp_all add: demo_store1_eq attached_world_def demo_world1_eq demo_world_def)

lemma attached_lazy_init:
  "audioContext (fst (connectAudioElement 0 init_store attached_world0)) = Some 0"
proof -
  obtain r m1 w1 where i: "initAudioContext init_store attached_world0 = (r, m1, w1)"
    by (metis prod_cases3)
  have hw: "has_window attached_world0"
    and ct: "has_AudioContext attached_world0 \<or> has_webkitAudioContext attached_world0"
    by (simp_all add: attached_world0_def demo_world_def)
  note f = first_init[OF hw ct i]
  have r: "r = Some 0" using f(1) by (simp add: attached_world0_def demo_world_def)
  have reg: "0 \<notin> connectedElements m1"
    using init_registry[OF i] by (simp add: init_store_def)
  have att: "source_attached (elements w1 0)"
    using init_elements[OF i] by (simp add: attached_world0_def demo_element_def)
  have "connectAudioElement 0 init_store attached_world0 =
     (m1, console_write (WarnConnectError InvalidStateError) (ensure_crossOrigin 0 w1))"
    by (rule connect_fail[OF i[unfolded r] f(6) f(9) reg att])
  then show ?thesis using f(2) r by simp
qed

section \<open>The claims\<close>

text \<open>
  Claim C1 (failed wiring), as amended. When the streaming source cannot be created because
  the element already feeds one, \<^verbatim>\<open>connectAudioElement\<close> catches the failure and logs
  one warning. The element is not added to the registry, no source is created, no node is
  connected and no \<^verbatim>\<open>onplay\<close> handler is installed. What the call leaves behind is
  what ran before the throw: the graph as \<^verbatim>\<open>initAudioContext\<close> returns it (unchanged
  when the graph was built already) and the element's \<^verbatim>\<open>crossOrigin\<close> attribute, set
  to \<^verbatim>\<open>anonymous\<close> when it was unset (lines 66 to 68 run before line 70 throws).
\<close>

theorem C1_failed_wiring:
  assumes "initAudioContext m w = (Some c, m1, w1)"
    and "analyser m1 \<noteq> None" "splitter m1 \<noteq> None"
    and "e \<notin> connectedElements m" "source_attached (elements w e)"
    and "connectAudioElement e m w = (m', w')"
  shows "m' = m1 \<and>
         w' = (ensure_crossOrigin e w1)
                \<lparr>console := console w1 @ [WarnConnectError InvalidStateError]\<rparr> \<and>
         connectedElements m' = connectedElements m \<and>
         sources w' = sources w1 \<and> connections w' = connections w1 \<and>
         onplay (elements w' e) = onplay (elements w e) \<and>
         (audioContext m \<noteq> None \<longrightarrow> m1 = m \<and> w1 = w)"
proof -
  from assms(1) have reg: "connectedElements m1 = connectedElements m" by (rule init_registry)
  from assms(1) have el: "elements w1 = elements w" by (rule init_elements)
  from assms(2,3) obtain a s where as: "analyser m1 = Some a" "splitter m1 = Some s" by auto
  have "connectAudioElement e m w =
     (m1, console_write (WarnConnectError InvalidStateError) (ensure_crossOrigin e w1))"
    using assms(1) as assms(4,5) by (intro connect_fail) (simp_all add: reg el)
  with assms(6) have m': "m' = m1"
    and w': "w' = console_write (WarnConnectError InvalidStateError) (ensure_crossOrigin e w1)"
    by simp_all
  have w'': "w' = (ensure_crossOrigin e w1)\<lparr>console := console w1 @ [WarnConnectError InvalidStateError]\<rparr>"
    unfolding w' by (simp add: console_write_def ensure_crossOrigin_def set_crossOrigin_def)
  have fields: "sources w' = sources w1" "connections w' = connections w1"
    "onplay (elements w' e) = onplay (elements w e)"
    unfolding w'' by (simp_all add: ensure_crossOrigin_def set_crossOrigin_def el)
  have same: "m1 = m \<and> w1 = w" if "audioContext m \<noteq> None"
    using that assms(1) by (auto simp add: initAudioContext_def split: if_splits)
  show ?thesis using m' w'' reg fields same by simp
qed

theorem C1_failed_wiring_witness:
  "initAudioContext demo_store1 attached_world = (Some 0, demo_store1, attached_world) \<and>
   analyser demo_store1 \<noteq> None \<and> splitter demo_store1 \<noteq> None \<and>
   0 \<notin> connectedElements demo_store1 \<and> source_attached (elements attached_world 0) \<and>
   fst (connectAudioElement 0 demo_store1 attached_world) = demo_store1 \<and>
   snd (connectAudioElement 0 demo_store1 attached_world) =
     (ensure_crossOrigin 0 attached_world)
       \<lparr>console := console attached_world @ [WarnConnectError InvalidStateError]\<rparr> \<and>
   sources (snd (connectAudioElement 0 demo_store1 attached_world)) = sources attached_world \<and>
   connections (snd (connectAudioElement 0 demo_store1 attached_world)) =
     connections attached_world"
proof -
  have hyps: "analyser demo_store1 \<noteq> None" "splitter demo_store1 \<noteq> None"
    "0 \<notin> connectedElements demo_store1" "source_attached (elements attached_world 0)"
    by (simp_all add: demo_store1_eq attached_world_def demo_element_def)
  have pair: "connectAudioElement 0 demo_store1 attached_world =
     (fst (connectAudioElement 0 demo_store1 attached_world),
      snd (connectAudioElement 0 demo_store1 attached_world))" by simp
  show ?thesis
    using C1_failed_wiring[OF attached_init hyps pair] attached_init hyps by blast
qed

text \<open>
  The claim as it is written says that a failed wiring leaves all state unchanged. It does
  not: with the graph built and an element that feeds another source and has no
  \<^verbatim>\<open>crossOrigin\<close> attribute, the call returns with the attribute set; and with the
  module as loaded, the failed call leaves the graph built.
\<close>

theorem C1_counterexample:
  "reachable demo_store1 attached_world \<and>
   source_attached (elements attached_world 0) \<and>
   crossOrigin (elements attached_world 0) = None \<and>
   crossOrigin (elements (snd (connectAudioElement 0 demo_store1 attached_world)) 0) =
     Some ''anonymous'' \<and>
   elements (snd (connectAudioElement 0 demo_store1 attached_world)) \<noteq> elements attached_world \<and>
   source_attached (elements attached_world0 0) \<and>
   audioContext init_store = None \<and>
   audioContext (fst (connectAudioElement 0 init_store attached_world0)) = Some 0"
proof -
  have lazy: "source_attached (elements attached_world0 0)" "audioContext init_store = None"
    by (simp_all add: attached_world0_def demo_element_def init_store_def)
  have c: "connectAudioElement 0 demo_store1 attached_world =
     (demo_store1,
      console_write (WarnConnectError InvalidStateError) (ensure_crossOrigin 0 attached_world))"
    by (rule connect_fail[OF attached_init])
       (simp_all add: demo_store1_eq attached_world_def demo_element_def)
  have before: "source_attached (elements attached_world 0)"
    "crossOrigin (elements attached_world 0) = None"
    by (simp_all add: attached_world_def demo_element_def)
  have after: "crossOrigin (elements (snd (connectAudioElement 0 demo_store1 attached_world)) 0) =
     Some ''anonymous''"
    unfolding c
    by (simp add: console_write_def ensure_crossOrigin_def set_crossOrigin_def
        attached_world_def demo_element_def)
  have "elements (snd (connectAudioElement 0 demo_store1 attached_world)) \<noteq> elements attached_world"
  proof
    assume "elements (snd (connectAudioElement 0 demo_store1 attached_world)) = elements attached_world"
    then have "crossOrigin (elements (snd (connectAudioElement 0 demo_store1 attached_world)) 0)
       = crossOrigin (elements attached_world 0)" by simp
    with before after show False by simp
  qed
  with attached_reachable before after lazy attached_lazy_init show ?thesis by simp
qed

text \<open>
  Claim C2 (initialisation is idempotent). In a host with a \<^verbatim>\<open>window\<close> and an
  audio-context constructor, \<open>n \<ge> 1\<close> calls of \<^verbatim>\<open>initAudioContext\<close> from the module as
  loaded leave the state the first call left: one more context, one more splitter and three
  more analysis nodes than before, the module's variables holding exactly those, and the
  ready flag, false before, true after the first call and after every later one. A call
  after the first returns the same context and changes nothing; that holds in every
  reachable state where the context exists, whatever ran in between. In any state at all,
  a call that changes the flag is a call that builds the graph, and it sets the flag to
  true: the module writes the flag once.
\<close>

theorem C2_init_idempotent:
  "(has_window w \<and> (has_AudioContext w \<or> has_webkitAudioContext w) \<and> 1 \<le> n \<and>
    initAudioContext init_store w = (r, m1, w1) \<longrightarrow>
      init_calls n (init_store, w) = (m1, w1) \<and>
      initAudioContext m1 w1 = (r, m1, w1) \<and>
      r = Some (ctx_count w) \<and> audioContext m1 = r \<and>
      ctx_count w1 = ctx_count w + 1 \<and>
      splitter_count w1 = splitter_count w + 1 \<and>
      analyser_count w1 = analyser_count w + 3 \<and>
      analyser m1 = Some (analyser_count w) \<and>
      analyserL m1 = Some (analyser_count w + 1) \<and>
      analyserR m1 = Some (analyser_count w + 2) \<and>
      splitter m1 = Some (splitter_count w) \<and>
      \<not> isAudioContextReady init_store \<and> isAudioContextReady m1) \<and>
   (reachable m w' \<and> audioContext m = Some c \<longrightarrow> initAudioContext m w' = (Some c, m, w')) \<and>
   (initAudioContext m w' = (r', m2, w2) \<and> isAudioContextReady m2 \<noteq> isAudioContextReady m \<longrightarrow>
      audioContext m = None \<and> audioContext m2 = r' \<and> r' \<noteq> None \<and> isAudioContextReady m2)"
proof (intro conjI; rule impI)
  assume "reachable m w' \<and> audioContext m = Some c"
  then have "built m w'" "audioContext m = Some c" by (simp_all add: reachable_init_built)
  then show "initAudioContext m w' = (Some c, m, w')" using init_built by fastforce
next
  assume "initAudioContext m w' = (r', m2, w2) \<and> isAudioContextReady m2 \<noteq> isAudioContextReady m"
  then show "audioContext m = None \<and> audioContext m2 = r' \<and> r' \<noteq> None \<and> isAudioContextReady m2"
    using init_flag_write by blast
next
  assume a: "has_window w \<and> (has_AudioContext w \<or> has_webkitAudioContext w) \<and> 1 \<le> n \<and>
    initAudioContext init_store w = (r, m1, w1)"
  then have hw: "has_window w" and ct: "has_AudioContext w \<or> has_webkitAudioContext w"
    and n1: "1 \<le> n" and i: "initAudioContext init_store w = (r, m1, w1)" by simp_all
  note facts = first_init[OF hw ct i]
  have again: "initAudioContext m1 w1 = (r, m1, w1)"
    using facts(1,2,11) by (simp add: init_existing)
  obtain k where n: "n = Suc k" using n1 by (cases n) simp_all
  have "init_calls n (init_store, w) = (m1, w1)"
    unfolding n using i init_calls_fixed[OF again] by simp
  with again facts
  show "init_calls n (init_store, w) = (m1, w1) \<and>
      initAudioContext m1 w1 = (r, m1, w1) \<and>
      r = Some (ctx_count w) \<and> audioContext m1 = r \<and>
      ctx_count w1 = ctx_count w + 1 \<and>
      splitter_count w1 = splitter_count w + 1 \<and>
      analyser_count w1 = analyser_count w + 3 \<and>
      analyser m1 = Some (analyser_count w) \<and>
      analyserL m1 = Some (analyser_count w + 1) \<and>
      analyserR m1 = Some (analyser_count w + 2) \<and>
      splitter m1 = Some (splitter_count w) \<and>
      \<not> isAudioContextReady init_store \<and> isAudioContextReady m1"
    by (simp add: init_store_def)
qed

theorem C2_init_idempotent_witness:
  "has_window demo_world \<and> (has_AudioContext demo_world \<or> has_webkitAudioContext demo_world) \<and>
   (1::nat) \<le> 3 \<and>
   initAudioContext init_store demo_world = (Some 0, demo_store1, demo_world1) \<and>
   init_calls 3 (init_store, demo_world) = (demo_store1, demo_world1) \<and>
   ctx_count demo_world = 0 \<and> ctx_count demo_world1 = 1 \<and>
   analyser_count demo_world = 0 \<and> analyser_count demo_world1 = 3 \<and>
   splitter_count demo_world = 0 \<and> splitter_count demo_world1 = 1 \<and>
   \<not> isAudioContextReady init_store \<and> isAudioContextReady demo_store1 \<and>
   reachable demo_store1 demo_world1 \<and> audioContext demo_store1 = Some 0 \<and>
   initAudioContext demo_store1 demo_world1 = (Some 0, demo_store1, demo_world1) \<and>
   isAudioContextReady demo_store1 \<noteq> isAudioContextReady init_store \<and>
   audioContext init_store = None"
  using C2_init_idempotent[of demo_world 3 "Some 0" demo_store1 demo_world1 demo_store1 demo_world1 0]
    C2_init_idempotent[of demo_world 3 "Some 0" demo_store1 demo_world1 init_store demo_world 0
      "Some 0" demo_store1 demo_world1]
    demo_init demo_reachable1
  by (simp add: demo_world_def demo_store1_eq init_store_def)

text \<open>
  Claim C3 (connection is idempotent). In every reachable state, connecting an element that
  is in the registry changes neither the module's variables nor the host: no source is
  created, no node connected, nothing logged, the registry as it was. So a second
  \<^verbatim>\<open>connectAudioElement\<close> with an element the first call registered is a no-op.
\<close>

theorem C3_connect_idempotent:
  "(reachable m w \<and> e \<in> connectedElements m \<longrightarrow> connectAudioElement e m w = (m, w)) \<and>
   (reachable m w \<and> connectAudioElement e m w = (m', w') \<and> e \<in> connectedElements m' \<longrightarrow>
      connectAudioElement e m' w' = (m', w'))"
proof -
  have once: "connectAudioElement e m w = (m, w)"
    if "reachable m w" "e \<in> connectedElements m" for m w
  proof -
    from that(2) have "\<not> unbuilt m" by (auto simp add: unbuilt_def)
    with reachable_cases[OF that(1)] have "built m w" by simp
    then obtain c where "initAudioContext m w = (Some c, m, w)" using init_built by blast
    then show ?thesis using that(2) by (rule connect_registered)
  qed
  show ?thesis
  proof (intro conjI impI)
    assume "reachable m w \<and> e \<in> connectedElements m"
    then show "connectAudioElement e m w = (m, w)" using once by blast
  next
    assume a: "reachable m w \<and> connectAudioElement e m w = (m', w') \<and> e \<in> connectedElements m'"
    then have "reachable m' w'" using reachable.r_connect by blast
    with a show "connectAudioElement e m' w' = (m', w')" using once by blast
  qed
qed

theorem C3_connect_idempotent_witness:
  "reachable demo_store1 demo_world1 \<and>
   connectAudioElement 0 demo_store1 demo_world1 = (demo_store2, demo_world2) \<and>
   reachable demo_store2 demo_world2 \<and> 0 \<in> connectedElements demo_store2 \<and>
   connectAudioElement 0 demo_store2 demo_world2 = (demo_store2, demo_world2)"
proof -
  have reg: "0 \<in> connectedElements demo_store2"
    unfolding demo_store2_def demo_connect_eq by simp
  show ?thesis
    using C3_connect_idempotent[of demo_store2 demo_world2 0 demo_store2 demo_world2]
      C3_connect_idempotent[of demo_store1 demo_world1 0 demo_store2 demo_world2]
      demo_reachable1 demo_reachable2 demo_connect reg
    by simp
qed

text \<open>
  Claim C4 (average volume). In every reachable state \<^verbatim>\<open>getAverageVolume\<close> returns the
  arithmetic mean of the snapshot \<^verbatim>\<open>getAudioData\<close> returns there, and 0 when that
  snapshot is empty; so 0 when every bin is 0, and 255 when the snapshot has bins and every
  bin is 255. The mean is exact although the division is a binary64 division: a snapshot of
  a reachable state has 256 bins, and a sum of 256 bytes divided by 256 needs no rounding.
\<close>

theorem C4_average_volume:
  assumes "reachable m w" "getAudioData m w = (snap, m1)"
  shows "getAverageVolume m w = (if snap = [] then Finite 0 else Finite (mean snap), m1) \<and>
         ((\<forall>b\<in>set snap. b = 0) \<longrightarrow> fst (getAverageVolume m w) = Finite 0) \<and>
         (snap \<noteq> [] \<and> (\<forall>b\<in>set snap. b = 255) \<longrightarrow> fst (getAverageVolume m w) = Finite 255)"
proof -
  have eq: "getAverageVolume m w = (if snap = [] then Finite 0 else Finite (mean snap), m1)"
  proof (cases "snap = []")
    case True
    then show ?thesis using getAverageVolume_eq[OF assms(2)] by simp
  next
    case False
    with reachable_snapshot[OF assms] have "length snap = 256" by simp
    then show ?thesis
      using getAverageVolume_eq[OF assms(2)] js_div_mean_256[of snap] False by simp
  qed
  show ?thesis
    unfolding eq using mean_all_zero[of snap] mean_all_full[of snap] by simp
qed

theorem C4_average_volume_witness:
  "reachable demo_store1 demo_world1 \<and>
   getAudioData demo_store1 demo_world1 =
     (replicate 256 255, demo_store1\<lparr>dataArray := Some (replicate 256 255)\<rparr>) \<and>
   replicate 256 (255 :: byte) \<noteq> [] \<and> set (replicate 256 (255 :: byte)) = {255} \<and>
   fst (getAverageVolume demo_store1 demo_world1) = Finite 255 \<and>
   reachable demo_store1 (demo_world1\<lparr>freq_data := (\<lambda>_. replicate 256 0)\<rparr>) \<and>
   set (replicate 256 (0 :: byte)) = {0} \<and>
   fst (getAverageVolume demo_store1 (demo_world1\<lparr>freq_data := (\<lambda>_. replicate 256 0)\<rparr>)) = Finite 0 \<and>
   reachable init_store demo_world \<and>
   getAverageVolume init_store demo_world = (Finite 0, init_store)"
proof -
  have sets: "replicate 256 (255 :: byte) \<noteq> []" "\<forall>b\<in>set (replicate 256 (255 :: byte)). b = 255"
    "\<forall>b\<in>set (replicate 256 (0 :: byte)). b = 0"
    by simp_all
  from C4_average_volume[OF demo_reachable1 demo_snapshot] sets(1,2)
  have full: "fst (getAverageVolume demo_store1 demo_world1) = Finite 255" by blast
  from C4_average_volume[OF demo_reachable_silent demo_snapshot_silent] sets(3)
  have silent: "fst (getAverageVolume demo_store1
      (demo_world1\<lparr>freq_data := (\<lambda>_. replicate 256 0)\<rparr>)) = Finite 0" by blast
  from C4_average_volume[OF reachable.r_start getAudioData_init_store, of demo_world]
  have empty: "getAverageVolume init_store demo_world = (Finite 0, init_store)" by simp
  have "set (replicate 256 (255 :: byte)) = {255}" "set (replicate 256 (0 :: byte)) = {0}"
    by simp_all
  then show ?thesis
    using demo_reachable1 demo_snapshot demo_reachable_silent reachable.r_start[of demo_world]
      sets(1) full silent empty
    by blast
qed

text \<open>
  Claim C5 (stereo averages). In every reachable state \<^verbatim>\<open>getStereoData\<close> returns
  \<^verbatim>\<open>{left: 0, right: 0}\<close> and changes nothing when the graph was never built;
  otherwise it fills the left and the right buffer from their analysis nodes and returns,
  in one record, the exact arithmetic mean of each buffer.
\<close>

theorem C5_stereo_means:
  assumes "reachable m w"
  shows "(audioContext m = None \<longrightarrow>
            getStereoData m w = (\<lparr>left = Finite 0, right = Finite 0\<rparr>, m)) \<and>
         (audioContext m \<noteq> None \<longrightarrow>
            (\<exists>aL aR dL dR.
               analyserL m = Some aL \<and> analyserR m = Some aR \<and>
               dataArrayL m = Some dL \<and> dataArrayR m = Some dR \<and>
               getStereoData m w =
                 (\<lparr>left = Finite (mean (getByteFrequencyData w aL dL)),
                   right = Finite (mean (getByteFrequencyData w aR dR))\<rparr>,
                  m\<lparr>dataArrayL := Some (getByteFrequencyData w aL dL),
                    dataArrayR := Some (getByteFrequencyData w aR dR)\<rparr>)))"
proof (intro conjI impI)
  assume "audioContext m = None"
  with assms have "unbuilt m" by (rule reachable_uninit)
  then show "getStereoData m w = (\<lparr>left = Finite 0, right = Finite 0\<rparr>, m)"
    by (simp add: getStereoData_def unbuilt_def)
next
  assume "audioContext m \<noteq> None"
  with assms have "built m w" by (rule reachable_init_built)
  then obtain aL aR dL dR where
    vars: "analyserL m = Some aL" "analyserR m = Some aR"
      "dataArrayL m = Some dL" "dataArrayR m = Some dR"
    and lens: "length dL = 256" "length dR = 256"
    unfolding built_def by blast
  have "js_div (reduce_sum (getByteFrequencyData w aL dL)) (length (getByteFrequencyData w aL dL))
          = Finite (mean (getByteFrequencyData w aL dL))"
    unfolding reduce_sum_eq using lens by (intro js_div_mean_256) simp
  moreover have "js_div (reduce_sum (getByteFrequencyData w aR dR)) (length (getByteFrequencyData w aR dR))
          = Finite (mean (getByteFrequencyData w aR dR))"
    unfolding reduce_sum_eq using lens by (intro js_div_mean_256) simp
  ultimately have "getStereoData m w =
                 (\<lparr>left = Finite (mean (getByteFrequencyData w aL dL)),
                   right = Finite (mean (getByteFrequencyData w aR dR))\<rparr>,
                  m\<lparr>dataArrayL := Some (getByteFrequencyData w aL dL),
                    dataArrayR := Some (getByteFrequencyData w aR dR)\<rparr>)"
    using vars by (simp add: getStereoData_def Let_def)
  with vars show "\<exists>aL aR dL dR.
               analyserL m = Some aL \<and> analyserR m = Some aR \<and>
               dataArrayL m = Some dL \<and> dataArrayR m = Some dR \<and>
               getStereoData m w =
                 (\<lparr>left = Finite (mean (getByteFrequencyData w aL dL)),
                   right = Finite (mean (getByteFrequencyData w aR dR))\<rparr>,
                  m\<lparr>dataArrayL := Some (getByteFrequencyData w aL dL),
                    dataArrayR := Some (getByteFrequencyData w aR dR)\<rparr>)"
    by blast
qed

theorem C5_stereo_means_witness:
  "reachable init_store demo_world \<and> audioContext init_store = None \<and>
   getStereoData init_store demo_world = (\<lparr>left = Finite 0, right = Finite 0\<rparr>, init_store) \<and>
   reachable demo_store1 demo_world1 \<and> audioContext demo_store1 \<noteq> None \<and>
   fst (getStereoData demo_store1 demo_world1) = \<lparr>left = Finite 255, right = Finite 255\<rparr>"
proof -
  have full: "mean (replicate 256 255) = 255"
    by (rule mean_all_full) simp_all
  have fill: "getByteFrequencyData demo_world1 a (replicate 256 0) = replicate 256 255" for a
    by (simp add: getByteFrequencyData_def demo_world1_eq demo_world_def)
  show ?thesis
    using C5_stereo_means[OF reachable.r_start, of demo_world]
      C5_stereo_means[OF demo_reachable1] demo_reachable1 reachable.r_start[of demo_world]
    by (auto simp add: init_store_def demo_store1_eq fill full)
qed

text \<open>
  Claim C6 (snapshot before initialisation). With the module as loaded, and in every
  reachable state in which the context was never created, \<^verbatim>\<open>getAudioData\<close> returns a
  byte sequence of length zero and changes nothing.
\<close>

theorem C6_uninitialised_snapshot_empty:
  "getAudioData init_store w = ([], init_store) \<and>
   (reachable m w \<and> audioContext m = None \<longrightarrow> getAudioData m w = ([], m))"
  using reachable_uninit getAudioData_unbuilt getAudioData_init_store by blast

theorem C6_uninitialised_snapshot_empty_witness:
  "reachable init_store demo_world \<and> audioContext init_store = None \<and>
   getAudioData init_store demo_world = ([], init_store)"
  using C6_uninitialised_snapshot_empty[of demo_world init_store] reachable.r_start[of demo_world]
  by (simp add: init_store_def)

text \<open>
  Claim C7 (buffer lengths). In every reachable state in which the graph exists, each of the
  three buffers has the length of its analysis node's bin count, which is 512 / 2 = 256, and
  \<^verbatim>\<open>getAudioData\<close> returns exactly 256 bins. Since that holds in every reachable
  state, the lengths are those of the allocation and never change.
\<close>

theorem C7_buffer_lengths:
  assumes "reachable m w" "audioContext m \<noteq> None"
  shows "(\<exists>a d. analyser m = Some a \<and> dataArray m = Some d \<and>
            length d = frequencyBinCount w a \<and> frequencyBinCount w a = 512 div 2) \<and>
         (\<exists>a d. analyserL m = Some a \<and> dataArrayL m = Some d \<and>
            length d = frequencyBinCount w a \<and> frequencyBinCount w a = 512 div 2) \<and>
         (\<exists>a d. analyserR m = Some a \<and> dataArrayR m = Some d \<and>
            length d = frequencyBinCount w a \<and> frequencyBinCount w a = 512 div 2) \<and>
         length (fst (getAudioData m w)) = 256"
proof -
  from assms have "built m w" by (rule reachable_init_built)
  then obtain a aL aR d dL dR where
    vars: "analyser m = Some a" "analyserL m = Some aL" "analyserR m = Some aR"
      "dataArray m = Some d" "dataArrayL m = Some dL" "dataArrayR m = Some dR"
    and lens: "length d = 256" "length dL = 256" "length dR = 256"
    and bins: "frequencyBinCount w a = 256" "frequencyBinCount w aL = 256"
      "frequencyBinCount w aR = 256"
    unfolding built_def by blast
  have "length (fst (getAudioData m w)) = 256"
    using vars lens by (simp add: getAudioData_def Let_def)
  with vars lens bins show ?thesis by simp
qed

theorem C7_buffer_lengths_witness:
  "reachable demo_store1 demo_world1 \<and> audioContext demo_store1 \<noteq> None \<and>
   dataArray demo_store1 = Some (replicate 256 0) \<and>
   frequencyBinCount demo_world1 0 = 256 \<and>
   length (fst (getAudioData demo_store1 demo_world1)) = 256"
  using C7_buffer_lengths[of demo_store1 demo_world1] demo_reachable1
  by (simp add: demo_store1_eq demo_world1_eq frequencyBinCount_def graph_node_def)

text \<open>
  Claim C8 (resumption). \<^verbatim>\<open>resumeAudioContext\<close> asks the host to resume the context
  exactly when the context exists and the host reports it suspended; when the context is in
  another state, or was never created, the call changes nothing.
\<close>

theorem C8_resume_iff_suspended:
  "(audioContext m = Some c \<and> ctx_state w c = Suspended \<longrightarrow>
      resumeAudioContext m w = w\<lparr>resume_requests := resume_requests w @ [c]\<rparr>) \<and>
   (audioContext m = Some c \<and> ctx_state w c \<noteq> Suspended \<longrightarrow> resumeAudioContext m w = w) \<and>
   (audioContext m = None \<longrightarrow> resumeAudioContext m w = w) \<and>
   (resume_requests (resumeAudioContext m w) \<noteq> resume_requests w \<longleftrightarrow>
      (\<exists>c'. audioContext m = Some c' \<and> ctx_state w c' = Suspended))"
  by (auto simp add: resumeAudioContext_def split: option.splits)

theorem C8_resume_iff_suspended_witness:
  "audioContext demo_store1 = Some 0 \<and> ctx_state demo_world1 0 = Suspended \<and>
   resumeAudioContext demo_store1 demo_world1 = demo_world1\<lparr>resume_requests := [0]\<rparr> \<and>
   ctx_state (demo_world1\<lparr>ctx_state := (\<lambda>_. Running)\<rparr>) 0 \<noteq> Suspended \<and>
   resumeAudioContext demo_store1 (demo_world1\<lparr>ctx_state := (\<lambda>_. Running)\<rparr>) =
     demo_world1\<lparr>ctx_state := (\<lambda>_. Running)\<rparr> \<and>
   audioContext init_store = None \<and>
   resumeAudioContext init_store demo_world = demo_world"
  using C8_resume_iff_suspended[of demo_store1 0 demo_world1]
    C8_resume_iff_suspended[of demo_store1 0 "demo_world1\<lparr>ctx_state := (\<lambda>_. Running)\<rparr>"]
    C8_resume_iff_suspended[of init_store 0 demo_world]
  by (simp add: demo_store1_eq demo_world1_eq demo_world_def init_store_def)

text \<open>
  Claim C9 (missing environment). Without a \<^verbatim>\<open>window\<close>, \<^verbatim>\<open>initAudioContext\<close> returns
  \<^verbatim>\<open>null\<close> and changes nothing, the console included. With a \<^verbatim>\<open>window\<close> that has
  neither constructor, in every reachable state it returns \<^verbatim>\<open>null\<close>, writes one error
  line to the console, and changes nothing else: no context and no node is created.
\<close>

theorem C9_missing_environment:
  "(\<not> has_window w \<longrightarrow> initAudioContext m w = (None, m, w)) \<and>
   (reachable m w \<and> has_window w \<and> \<not> has_AudioContext w \<and> \<not> has_webkitAudioContext w \<longrightarrow>
      initAudioContext m w = (None, m, w\<lparr>console := console w @ [ErrorNotSupported]\<rparr>))"
proof (intro conjI impI)
  assume "\<not> has_window w"
  then show "initAudioContext m w = (None, m, w)" by (rule init_no_window)
next
  assume a: "reachable m w \<and> has_window w \<and> \<not> has_AudioContext w \<and> \<not> has_webkitAudioContext w"
  then have "\<not> built m w" by (simp add: built_def)
  with a reachable_cases have "unbuilt m" by blast
  then have "audioContext m = None" by (simp add: unbuilt_def)
  with a show "initAudioContext m w = (None, m, w\<lparr>console := console w @ [ErrorNotSupported]\<rparr>)"
    by (simp add: init_unsupported console_write_def)
qed

theorem C9_missing_environment_witness:
  "\<not> has_window (demo_world\<lparr>has_window := False\<rparr>) \<and>
   initAudioContext init_store (demo_world\<lparr>has_window := False\<rparr>) =
     (None, init_store, demo_world\<lparr>has_window := False\<rparr>) \<and>
   reachable init_store (demo_world\<lparr>has_AudioContext := False\<rparr>) \<and>
   has_window (demo_world\<lparr>has_AudioContext := False\<rparr>) \<and>
   \<not> has_AudioContext (demo_world\<lparr>has_AudioContext := False\<rparr>) \<and>
   \<not> has_webkitAudioContext (demo_world\<lparr>has_AudioContext := False\<rparr>) \<and>
   initAudioContext init_store (demo_world\<lparr>has_AudioContext := False\<rparr>) =
     (None, init_store, demo_world\<lparr>has_AudioContext := False, console := [ErrorNotSupported]\<rparr>)"
  using C9_missing_environment[of "demo_world\<lparr>has_window := False\<rparr>" init_store]
    C9_missing_environment[of "demo_world\<lparr>has_AudioContext := False\<rparr>" init_store]
    reachable.r_start[of "demo_world\<lparr>has_AudioContext := False\<rparr>"]
  by (simp add: demo_world_def)

text \<open>
  Claim C10 (the \<^verbatim>\<open>onplay\<close> property is overwritten). When a call of
  \<^verbatim>\<open>connectAudioElement\<close> newly registers an element, the element's \<^verbatim>\<open>onplay\<close>
  property holds the module's closure afterwards, whatever it held before; a \<^verbatim>\<open>play\<close>
  event then runs that closure only, so a handler installed earlier no longer runs.
\<close>

theorem C10_onplay_replaced:
  assumes "connectAudioElement e m w = (m', w')"
    and "e \<notin> connectedElements m" "e \<in> connectedElements m'"
  shows "onplay (elements w' e) = Some (StoreOnPlay e) \<and>
         foreign_runs (fire_play e m' w') = foreign_runs w' \<and>
         fire_play e m' w' =
           resumeAudioContext m' (console_write (LogPlaying (el_id (elements w' e))) w')"
proof -
  obtain r m1 w1 where i: "initAudioContext m w = (r, m1, w1)" by (metis prod_cases3)
  then have reg: "connectedElements m1 = connectedElements m" by (rule init_registry)
  with assms(2) have notin: "e \<notin> connectedElements m1" by simp
  have "m' \<noteq> m1" using assms(3) notin by auto
  have skip: "connectAudioElement e m w = (m1, w1)"
    if "r = None \<or> analyser m1 = None \<or> splitter m1 = None"
    using that i connect_no_ctx connect_missing_node by blast
  have "\<not> (r = None \<or> analyser m1 = None \<or> splitter m1 = None)"
  proof
    assume "r = None \<or> analyser m1 = None \<or> splitter m1 = None"
    then have "connectAudioElement e m w = (m1, w1)" by (rule skip)
    with assms(1) \<open>m' \<noteq> m1\<close> show False by simp
  qed
  then obtain c a s where
    ok: "r = Some c" "analyser m1 = Some a" "splitter m1 = Some s" by auto
  have "\<not> source_attached (elements w1 e)"
  proof
    assume "source_attached (elements w1 e)"
    from connect_fail[OF i[unfolded ok(1)] ok(2,3) notin this] assms(1) \<open>m' \<noteq> m1\<close>
    show False by simp
  qed
  from connect_ok[OF i[unfolded ok(1)] ok(2,3) notin this] assms(1)
  have w': "w' = (ensure_crossOrigin e w1)
       \<lparr>sources := sources w1 @ [e],
        connections := connections w1 @
          [(SourceNode (length (sources w1)), AnalyserNode a, 0),
           (SourceNode (length (sources w1)), SplitterNode s, 0),
           (AnalyserNode a, Destination c, 0)],
        console := console w1 @ [LogConnected (el_id (elements w1 e))],
        elements := (elements (ensure_crossOrigin e w1))
          (e := (elements (ensure_crossOrigin e w1) e)
             \<lparr>source_attached := True, onplay := Some (StoreOnPlay e)\<rparr>)\<rparr>"
    by simp
  have h: "onplay (elements w' e) = Some (StoreOnPlay e)"
    unfolding w' by simp
  then have f: "fire_play e m' w' =
      resumeAudioContext m' (console_write (LogPlaying (el_id (elements w' e))) w')"
    by (simp add: fire_play_def)
  have "foreign_runs (fire_play e m' w') = foreign_runs w'"
    unfolding f by (simp add: resumeAudioContext_def console_write_def split: option.splits)
  with h f show ?thesis by simp
qed

theorem C10_onplay_replaced_witness:
  "connectAudioElement 0 demo_store1 demo_world1 = (demo_store2, demo_world2) \<and>
   0 \<notin> connectedElements demo_store1 \<and> 0 \<in> connectedElements demo_store2 \<and>
   onplay (elements demo_world1 0) = Some (ForeignHandler 7) \<and>
   foreign_runs (fire_play 0 demo_store1 demo_world1) = [7] \<and>
   onplay (elements demo_world2 0) = Some (StoreOnPlay 0) \<and>
   foreign_runs (fire_play 0 demo_store2 demo_world2) = []"
proof -
  have reg: "0 \<notin> connectedElements demo_store1" "0 \<in> connectedElements demo_store2"
    unfolding demo_store2_def demo_connect_eq by (simp_all add: demo_store1_eq)
  have before: "onplay (elements demo_world1 0) = Some (ForeignHandler 7)"
    "foreign_runs (fire_play 0 demo_store1 demo_world1) = [7]"
    by (simp_all add: fire_play_def demo_world1_eq demo_world_def demo_element_def)
  have none: "foreign_runs demo_world2 = []"
    unfolding demo_world2_def demo_connect_eq by (simp add: demo_world1_eq demo_world_def)
  from C10_onplay_replaced[OF demo_connect reg]
  have after: "onplay (elements demo_world2 0) = Some (StoreOnPlay 0)"
    "foreign_runs (fire_play 0 demo_store2 demo_world2) = foreign_runs demo_world2"
    by blast+
  show ?thesis
    using demo_connect reg before after none by simp
qed

end
